theory Spec2Isabelle
  imports Main "HOL-Library.Word" "HOL-Library.AList"
begin

section \<open>The encrypted secret value store of pkg/storage/secret\<close>

text \<open>
  The development follows the most complete variant of the store (the file with
  \<^verbatim>\<open>toSecureValueRow\<close>, \<^verbatim>\<open>secureValueRow.toK8s\<close>, \<^verbatim>\<open>Create\<close>, \<^verbatim>\<open>Read\<close>,
  \<^verbatim>\<open>List\<close>, \<^verbatim>\<open>Decrypt\<close> and \<^verbatim>\<open>get\<close>). Go values are modelled as follows:
  \<^item> a Go \<^verbatim>\<open>string\<close> is a \<open>string\<close>;
  \<^item> a Go \<^verbatim>\<open>map[string]string\<close> is the list of its entries, each key once; a nil map and
    an empty map are both \<open>[]\<close> (the code only ever asks for \<^verbatim>\<open>len(m) > 0\<close>);
  \<^item> a Go \<^verbatim>\<open>[]string\<close> is a \<open>string list\<close>, nil and empty both \<open>[]\<close>;
  \<^item> an \<^verbatim>\<open>int64\<close> is a \<open>64 word\<close>;
  \<^item> a \<^verbatim>\<open>time.Time\<close> is its reading in Unix milliseconds, the only way this code
    reads or builds one (\<^verbatim>\<open>UnixMilli()\<close>, \<^verbatim>\<open>time.UnixMilli\<close>);
  \<^item> a function returning \<^verbatim>\<open>(T, error)\<close> returns \<open>error + T\<close>, \<open>Inl\<close> the error.
\<close>

subsection \<open>Errors\<close>

datatype error =
    Errorf string      \<comment> \<open>\<^verbatim>\<open>fmt.Errorf(msg)\<close>\<close>
  | Wrapf string error \<comment> \<open>\<^verbatim>\<open>fmt.Errorf(msg + ": %w", err)\<close>\<close>
  | SyntaxError        \<comment> \<open>the error of \<^verbatim>\<open>json.Unmarshal\<close> on text it cannot decode\<close>
  | Panic string       \<comment> \<open>\<^verbatim>\<open>panic(msg)\<close>: no value is returned at all\<close>

type_synonym gomap = "(string \<times> string) list"

subsection \<open>The part of encoding/json the store uses\<close>

text \<open>
  The store marshals string maps and string slices and unmarshals them again. The
  encoder writes compact JSON and escapes the quote and the backslash inside a string.
  The decoder skips white space between tokens, accepts the escapes \<^verbatim>\<open>\"\<close>, \<^verbatim>\<open>\\\<close>
  and \<^verbatim>\<open>\/\<close>, lets a later duplicate key overwrite an earlier one, and reports
  \<open>SyntaxError\<close> on any other text. Go's encoder escapes control and HTML characters
  as well and its decoder accepts \<^verbatim>\<open>null\<close> and the remaining escapes; strings are taken
  to be well-formed text without such characters.
\<close>

datatype token = TStr string | TSym char

definition is_space :: "char \<Rightarrow> bool" where
  "is_space c = (c = CHR '' '' \<or> c = CHR 0x09 \<or> c = CHR 0x0A \<or> c = CHR 0x0D)"

fun json_escape :: "string \<Rightarrow> string" where
  "json_escape [] = []"
| "json_escape (c # cs) =
     (if c = CHR 0x22 \<or> c = CHR 0x5C then CHR 0x5C # c # json_escape cs
      else c # json_escape cs)"

definition json_string :: "string \<Rightarrow> string" where
  "json_string s = CHR 0x22 # json_escape s @ [CHR 0x22]"

fun json_members :: "gomap \<Rightarrow> string" where
  "json_members [] = []"
| "json_members [(k, v)] = json_string k @ '':'' @ json_string v"
| "json_members ((k, v) # kv # m) =
     json_string k @ '':'' @ json_string v @ '','' @ json_members (kv # m)"

fun json_elements :: "string list \<Rightarrow> string" where
  "json_elements [] = []"
| "json_elements [s] = json_string s"
| "json_elements (s # t # ss) = json_string s @ '','' @ json_elements (t # ss)"

definition Marshal_map :: "gomap \<Rightarrow> error + string" where
  "Marshal_map m = Inr (''{'' @ json_members m @ ''}'')"

definition Marshal_strings :: "string list \<Rightarrow> error + string" where
  "Marshal_strings ss = Inr (''['' @ json_elements ss @ '']'')"

text \<open>
  The scanner: the first argument is \<open>None\<close> between tokens and \<open>Some acc\<close> inside a
  string literal whose content so far is \<open>acc\<close>.
\<close>

fun lex :: "string option \<Rightarrow> string \<Rightarrow> token list option" where
  "lex None [] = Some []"
| "lex (Some acc) [] = None"
| "lex None (c # cs) =
     (if c = CHR 0x22 then lex (Some []) cs
      else if is_space c then lex None cs
      else map_option ((#) (TSym c)) (lex None cs))"
| "lex (Some acc) (c # cs) =
     (if c = CHR 0x22 then map_option ((#) (TStr acc)) (lex None cs)
      else if c = CHR 0x5C then
        (case cs of
           [] \<Rightarrow> None
         | d # ds \<Rightarrow>
             if d = CHR 0x22 \<or> d = CHR 0x5C \<or> d = CHR ''/'' then lex (Some (acc @ [d])) ds
             else None)
      else lex (Some (acc @ [c])) cs)"

fun parse_members :: "token list \<Rightarrow> gomap option" where
  "parse_members (TStr k # TSym c1 # TStr v # TSym c2 # ts) =
     (if c1 \<noteq> CHR '':'' then None
      else if c2 = CHR ''}'' \<and> ts = [] then Some [(k, v)]
      else if c2 = CHR '','' then map_option ((#) (k, v)) (parse_members ts)
      else None)"
| "parse_members ts = None"

fun parse_elements :: "token list \<Rightarrow> string list option" where
  "parse_elements (TStr s # TSym c # ts) =
     (if c = CHR '']'' \<and> ts = [] then Some [s]
      else if c = CHR '','' then map_option ((#) s) (parse_elements ts)
      else None)"
| "parse_elements ts = None"

definition parse_object :: "string \<Rightarrow> gomap option" where
  "parse_object s =
     (case lex None s of
        Some (TSym c # ts) \<Rightarrow>
          if c \<noteq> CHR ''{'' then None
          else if ts = [TSym (CHR ''}'')] then Some []
          else parse_members ts
      | _ \<Rightarrow> None)"

definition parse_array :: "string \<Rightarrow> string list option" where
  "parse_array s =
     (case lex None s of
        Some (TSym c # ts) \<Rightarrow>
          if c \<noteq> CHR ''['' then None
          else if ts = [TSym (CHR '']'')] then Some []
          else parse_elements ts
      | _ \<Rightarrow> None)"

text \<open>
  \<^verbatim>\<open>json.Unmarshal(data, &m)\<close> for a map keeps the entries \<open>m\<close> already has and stores
  the decoded members into it one by one; for a slice it replaces the content.
\<close>

definition Unmarshal_map :: "string \<Rightarrow> gomap \<Rightarrow> error + gomap" where
  "Unmarshal_map s m =
     (case parse_object s of
        None \<Rightarrow> Inl SyntaxError
      | Some ms \<Rightarrow> Inr (fold (\<lambda>(k, v). AList.update k v) ms m))"

definition Unmarshal_strings :: "string \<Rightarrow> error + string list" where
  "Unmarshal_strings s =
     (case parse_array s of None \<Rightarrow> Inl SyntaxError | Some ss \<Rightarrow> Inr ss)"

text \<open>\<^verbatim>\<open>strings.HasPrefix(s, prefix)\<close>: whether \<open>s\<close> begins with \<open>prefix\<close>.\<close>

definition HasPrefix :: "string \<Rightarrow> string \<Rightarrow> bool" where
  "HasPrefix s pre = (length pre \<le> length s \<and> take (length pre) s = pre)"

subsection \<open>The resource and the persisted row\<close>

text \<open>
  \<^verbatim>\<open>secret.SecureValue\<close> embeds \<^verbatim>\<open>metav1.ObjectMeta\<close> and has a \<^verbatim>\<open>Spec\<close>; the
  fields of the former carry the prefix \<open>meta_\<close>, those of the latter \<open>spec_\<close>. The
  fields \<open>meta_ResourceVersion\<close>, \<open>meta_CreatedBy\<close>, \<open>meta_UpdatedBy\<close> and
  \<open>meta_UpdatedTimestamp\<close> are the ones the metadata accessor below reads and writes.
\<close>

record SecureValue =
  meta_Name :: string
  meta_Namespace :: string
  meta_UID :: string
  meta_CreationTimestamp :: "64 word"
  meta_Labels :: gomap
  meta_Annotations :: gomap
  meta_ResourceVersion :: "64 word"
  meta_CreatedBy :: string
  meta_UpdatedBy :: string
  meta_UpdatedTimestamp :: "64 word option"
  spec_Title :: string
  spec_Value :: string
  spec_APIs :: "string list"

text \<open>
  Modelled from the spec: \<^verbatim>\<open>utils.MetaAccessor\<close> (pkg/apimachinery/utils), with its
  getters and setters, is not among the sources. By the spec created-by, updated-by,
  the update timestamp and the resource version are system metadata, which "travels
  through the object-metadata side channel, not annotations", and the resource version
  "is defined as the update timestamp in milliseconds". So each getter reads and each
  setter writes a metadata field of the object of its own, and nothing else.
  \<^verbatim>\<open>utils.MetaAccessor(v)\<close> itself returns no error on a SecureValue.
\<close>

definition GetCreatedBy :: "SecureValue \<Rightarrow> string" where
  "GetCreatedBy v = meta_CreatedBy v"

definition GetUpdatedBy :: "SecureValue \<Rightarrow> string" where
  "GetUpdatedBy v = meta_UpdatedBy v"

definition GetUpdatedTimestamp :: "SecureValue \<Rightarrow> 64 word option" where
  "GetUpdatedTimestamp v = meta_UpdatedTimestamp v"

definition SetCreatedBy :: "string \<Rightarrow> SecureValue \<Rightarrow> SecureValue" where
  "SetCreatedBy user v = v\<lparr>meta_CreatedBy := user\<rparr>"

definition SetUpdatedBy :: "string \<Rightarrow> SecureValue \<Rightarrow> SecureValue" where
  "SetUpdatedBy user v = v\<lparr>meta_UpdatedBy := user\<rparr>"

definition SetUpdatedTimestampMillis :: "64 word \<Rightarrow> SecureValue \<Rightarrow> SecureValue" where
  "SetUpdatedTimestampMillis ms v = v\<lparr>meta_UpdatedTimestamp := Some ms\<rparr>"

definition SetResourceVersionInt64 :: "64 word \<Rightarrow> SecureValue \<Rightarrow> SecureValue" where
  "SetResourceVersionInt64 rv v = v\<lparr>meta_ResourceVersion := rv\<rparr>"

record secureValueRow =
  UID :: string
  Namespace :: string
  Name :: string
  Title :: string
  Salt :: string
  Value :: string
  Keeper :: string
  Addr :: string
  Created :: "64 word"
  CreatedBy :: string
  Updated :: "64 word"
  UpdatedBy :: string
  Annotations :: string
  Labels :: string
  APIs :: string

text \<open>The zero value \<^verbatim>\<open>secureValueRow{}\<close>.\<close>

definition zero_row :: secureValueRow where
  "zero_row =
     \<lparr>UID = [], Namespace = [], Name = [], Title = [], Salt = [], Value = [],
      Keeper = [], Addr = [], Created = 0, CreatedBy = [], Updated = 0, UpdatedBy = [],
      Annotations = [], Labels = [], APIs = []\<rparr>"

subsection \<open>The collaborators of the store\<close>

text \<open>
  The caller's context carries the authenticated identity, if there is one:
  \<^verbatim>\<open>claims.From(ctx)\<close> returns it.
\<close>

datatype AuthInfo = AuthInfo (GetUID: string)

type_synonym Context = "AuthInfo option"

definition claims_From :: "Context \<Rightarrow> AuthInfo option" where
  "claims_From ctx = ctx"

text \<open>
  The keeper is an interface the deployment provides; \<^verbatim>\<open>SaltyValue\<close> is its argument
  (fields \<^verbatim>\<open>Value\<close>, \<^verbatim>\<open>Salt\<close>, \<^verbatim>\<open>Keeper\<close>, \<^verbatim>\<open>Addr\<close>).
\<close>

record SaltyValue =
  sv_Value :: string
  sv_Salt :: string
  sv_Keeper :: string
  sv_Addr :: string

record SecretKeeper =
  Encode :: "Context \<Rightarrow> SaltyValue \<Rightarrow> error + string"
  Decode :: "Context \<Rightarrow> SaltyValue \<Rightarrow> error + string"

text \<open>
  What the calls of \<^verbatim>\<open>uuid.NewString()\<close>, \<^verbatim>\<open>time.Now()\<close> and
  \<^verbatim>\<open>util.GetRandomString(n)\<close> return during one operation of the store.
\<close>

record runtime =
  NewString :: string
  Now :: "64 word"
  GetRandomString :: "nat \<Rightarrow> error + string"

text \<open>
  Modelled from the spec: the table and the SQL templates \<^verbatim>\<open>secure_value_insert.sql\<close>
  and \<^verbatim>\<open>secure_value_list.sql\<close> are not among the sources. By the spec there is "one
  row per SecureValue", a value is "uniquely identified by (namespace, name)", Read
  "looks up exactly one row by (namespace, name)", List "fetches all rows for the
  namespace" and gets them "in the order retrieved from storage (insertion/scan
  order)". Both Read and List render the one list template from a request row, which
  names the namespace and, for Read, the name. So the table is the list of its rows in
  insertion order; the list statement selects the rows of the request's namespace, and
  of its name when the request has one; the insert statement appends a row and fails
  when the table has a row of that namespace and name already. A statement on a
  database that is not reachable fails. Rendering and running a statement is one step.
\<close>

record DB =
  table :: "secureValueRow list"
  online :: bool

definition matches_request :: "secureValueRow \<Rightarrow> secureValueRow \<Rightarrow> bool" where
  "matches_request req r =
     (Namespace r = Namespace req \<and> (Name req = [] \<or> Name r = Name req))"

definition sqlSecureValueList :: "secureValueRow \<Rightarrow> DB \<Rightarrow> error + secureValueRow list" where
  "sqlSecureValueList req d =
     (if online d then Inr (filter (matches_request req) (table d))
      else Inl (Errorf ''sql: database is closed''))"

definition sqlSecureValueInsert :: "secureValueRow \<Rightarrow> DB \<Rightarrow> error + DB" where
  "sqlSecureValueInsert row d =
     (if \<not> online d then Inl (Errorf ''sql: database is closed'')
      else if \<exists>r \<in> set (table d). Namespace r = Namespace row \<and> Name r = Name row
        then Inl (Errorf ''UNIQUE constraint failed'')
      else Inr (d\<lparr>table := table d @ [row]\<rparr>))"

record secureStore =
  keeper :: SecretKeeper
  db :: DB

text \<open>
  A label selector is its method \<^verbatim>\<open>Matches\<close>; \<^verbatim>\<open>labels.Everything()\<close> matches every
  label set.
\<close>

type_synonym Selector = "gomap \<Rightarrow> bool"

definition Everything :: Selector where
  "Everything = (\<lambda>ls. True)"

record ListOptions =
  LabelSelector :: "Selector option"

datatype SecureValueList = SecureValueList (Items: "SecureValue list")

subsection \<open>The row codec\<close>

text \<open>
  \<^verbatim>\<open>toSecureValueRow\<close>. The UID is \<^verbatim>\<open>uuid.NewString()\<close>. The loop over the
  annotations keeps the entry of key \<open>k\<close> unless
  \<^verbatim>\<open>strings.HasPrefix("grafana.app/", k)\<close>, with the arguments in this order.
\<close>

definition toSecureValueRow :: "runtime \<Rightarrow> SecureValue \<Rightarrow> error + secureValueRow" where
  "toSecureValueRow rt v =
     (let row = zero_row
            \<lparr>UID := NewString rt,
             Namespace := meta_Namespace v,
             Name := meta_Name v,
             Title := spec_Title v,
             Value := spec_Value v,
             Created := meta_CreationTimestamp v,
             CreatedBy := GetCreatedBy v,
             UpdatedBy := GetUpdatedBy v\<rparr>;
          row = (case GetUpdatedTimestamp v of
                   Some t \<Rightarrow> row\<lparr>Updated := t\<rparr>
                 | None \<Rightarrow> row\<lparr>Updated := Created row\<rparr>)
      in case (if length (meta_Labels v) > 0
               then map_sum id (\<lambda>js. row\<lparr>Labels := js\<rparr>) (Marshal_map (meta_Labels v))
               else Inr row) of
           Inl err \<Rightarrow> Inl err
         | Inr row \<Rightarrow>
      case (if length (spec_APIs v) > 0
            then map_sum id (\<lambda>js. row\<lparr>APIs := js\<rparr>) (Marshal_strings (spec_APIs v))
            else Inr row) of
           Inl err \<Rightarrow> Inl err
         | Inr row \<Rightarrow>
      if length (meta_Annotations v) > 0
      then (let anno = filter (\<lambda>(k, x). \<not> HasPrefix ''grafana.app/'' k) (meta_Annotations v)
            in map_sum id (\<lambda>js. row\<lparr>Annotations := js\<rparr>) (Marshal_map anno))
      else Inr row)"

text \<open>\<^verbatim>\<open>secureValueRow.toK8s\<close>.\<close>

definition toK8s :: "secureValueRow \<Rightarrow> error + SecureValue" where
  "toK8s v =
     (let val = \<lparr>meta_Name = Name v,
                 meta_Namespace = Namespace v,
                 meta_UID = UID v,
                 meta_CreationTimestamp = Created v,
                 meta_Labels = [],
                 meta_Annotations = [],
                 meta_ResourceVersion = 0,
                 meta_CreatedBy = [],
                 meta_UpdatedBy = [],
                 meta_UpdatedTimestamp = None,
                 spec_Title = Title v,
                 spec_Value = [],
                 spec_APIs = []\<rparr>
      in case (if APIs v \<noteq> []
               then map_sum id (\<lambda>x. val\<lparr>spec_APIs := x\<rparr>) (Unmarshal_strings (APIs v))
               else Inr val) of
           Inl err \<Rightarrow> Inl err
         | Inr val \<Rightarrow>
      case (if Annotations v \<noteq> []
            then map_sum id (\<lambda>x. val\<lparr>meta_Annotations := x\<rparr>)
                   (Unmarshal_map (Annotations v) (meta_Annotations val))
            else Inr val) of
           Inl err \<Rightarrow> Inl err
         | Inr val \<Rightarrow>
      case (if Labels v \<noteq> []
            then map_sum id (\<lambda>x. val\<lparr>meta_Labels := x\<rparr>)
                   (Unmarshal_map (Labels v) (meta_Labels val))
            else Inr val) of
           Inl err \<Rightarrow> Inl err
         | Inr val \<Rightarrow>
      (let val = SetCreatedBy (CreatedBy v) val;
           val = (if Updated v \<noteq> Created v
                  then SetUpdatedTimestampMillis (Updated v) (SetUpdatedBy (UpdatedBy v) val)
                  else val)
       in Inr (SetResourceVersionInt64 (Updated v) val)))"

subsection \<open>The store\<close>

text \<open>
  \<^verbatim>\<open>secureStore.Create\<close>. The argument is a pointer, and the database changes, so the
  result comes with the caller's object and the store as the call leaves them.
\<close>

definition Create ::
  "runtime \<Rightarrow> secureStore \<Rightarrow> Context \<Rightarrow> SecureValue
     \<Rightarrow> (error + SecureValue) \<times> SecureValue \<times> secureStore" where
  "Create rt s ctx v =
     (case claims_From ctx of
        None \<Rightarrow> (Inl (Errorf ''missing auth info in context''), v, s)
      | Some authInfo \<Rightarrow>
     if meta_Name v = [] then (Inl (Errorf ''missing name''), v, s)
     else if spec_Value v = [] then (Inl (Errorf ''missing value''), v, s)
     else
       (let v = v\<lparr>meta_CreationTimestamp := Now rt\<rparr>
        in case toSecureValueRow rt v of
             Inl err \<Rightarrow> (Inl err, v, s)
           | Inr row \<Rightarrow>
        (let row = row\<lparr>CreatedBy := GetUID authInfo\<rparr>;
             row = row\<lparr>UpdatedBy := GetUID authInfo\<rparr>
         in case GetRandomString rt 10 of
              Inl err \<Rightarrow> (Inl err, v, s)
            | Inr salt \<Rightarrow>
         (let row = row\<lparr>Salt := salt\<rparr>
          in case Encode (keeper s) ctx
                    \<lparr>sv_Value = spec_Value v, sv_Salt = Salt row, sv_Keeper = [], sv_Addr = []\<rparr> of
               Inl err \<Rightarrow> (Inl err, v, s)
             | Inr enc \<Rightarrow>
          (let row = row\<lparr>Value := enc\<rparr>
           in case sqlSecureValueInsert row (db s) of
                Inl err \<Rightarrow> (Inl err, v, s)
              | Inr d \<Rightarrow> (toK8s row, v, s\<lparr>db := d\<rparr>))))))"

text \<open>
  \<^verbatim>\<open>secureStore.get\<close>: the first row the list statement yields for the namespace and
  the name, or the error "not found". An error of the statement is wrapped; scanning a
  row into the struct does not fail.
\<close>

definition get :: "secureStore \<Rightarrow> Context \<Rightarrow> string \<Rightarrow> string \<Rightarrow> error + secureValueRow" where
  "get s ctx ns name =
     (case sqlSecureValueList (zero_row\<lparr>Namespace := ns, Name := name\<rparr>) (db s) of
        Inl err \<Rightarrow> Inl (Wrapf ''list template'' err)
      | Inr [] \<Rightarrow> Inl (Errorf ''not found'')
      | Inr (row # rows) \<Rightarrow> Inr row)"

definition Read :: "secureStore \<Rightarrow> Context \<Rightarrow> string \<Rightarrow> string \<Rightarrow> error + SecureValue" where
  "Read s ctx ns name =
     (case get s ctx ns name of Inl err \<Rightarrow> Inl err | Inr v \<Rightarrow> toK8s v)"

definition Update :: "secureStore \<Rightarrow> Context \<Rightarrow> SecureValue \<Rightarrow> error + SecureValue" where
  "Update s ctx v = Inl (Panic ''unimplemented'')"

definition Delete ::
  "secureStore \<Rightarrow> Context \<Rightarrow> string \<Rightarrow> string \<Rightarrow> error + SecureValue \<times> bool" where
  "Delete s ctx ns name = Inl (Panic ''unimplemented'')"

definition History ::
  "secureStore \<Rightarrow> Context \<Rightarrow> string \<Rightarrow> string \<Rightarrow> string \<Rightarrow> error + unit" where
  "History s ctx ns name continueToken = Inl (Panic ''unimplemented'')"

text \<open>
  \<^verbatim>\<open>secureStore.List\<close>. The loop \<^verbatim>\<open>for rows.Next()\<close> decodes the rows one after the
  other, appends the matching objects to \<^verbatim>\<open>list.Items\<close> and returns at the first row
  that does not decode. \<^verbatim>\<open>options\<close> is a pointer the function dereferences.
\<close>

fun List_rows :: "Selector \<Rightarrow> secureValueRow list \<Rightarrow> SecureValue list \<Rightarrow> error + SecureValue list" where
  "List_rows selector [] items = Inr items"
| "List_rows selector (row # rows) items =
     (case toK8s row of
        Inl err \<Rightarrow> Inl err
      | Inr obj \<Rightarrow>
          if selector (meta_Labels obj) then List_rows selector rows (items @ [obj])
          else List_rows selector rows items)"

definition List ::
  "secureStore \<Rightarrow> Context \<Rightarrow> string \<Rightarrow> ListOptions option \<Rightarrow> error + SecureValueList" where
  "List s ctx ns options =
     (case options of
        None \<Rightarrow> Inl (Panic ''invalid memory address or nil pointer dereference'')
      | Some opts \<Rightarrow>
     (let selector = (case LabelSelector opts of None \<Rightarrow> Everything | Some sel \<Rightarrow> sel)
      in case sqlSecureValueList (zero_row\<lparr>Namespace := ns\<rparr>) (db s) of
           Inl err \<Rightarrow> Inl (Wrapf ''list template'' err)
         | Inr rows \<Rightarrow> map_sum id SecureValueList (List_rows selector rows [])))"

text \<open>
  \<^verbatim>\<open>secureStore.Decrypt\<close>. Where the row has a list of APIs the code prints a line
  ("MAKE SURE ctx is an app that can read", under the comment \<^verbatim>\<open>TODO!!!\<close>) and goes on;
  the context is handed to the keeper and not looked at otherwise.
\<close>

definition Decrypt :: "secureStore \<Rightarrow> Context \<Rightarrow> string \<Rightarrow> string \<Rightarrow> error + SecureValue" where
  "Decrypt s ctx ns name =
     (case get s ctx ns name of
        Inl err \<Rightarrow> Inl err
      | Inr row \<Rightarrow>
     (case toK8s row of
        Inl err \<Rightarrow> Inl err
      | Inr v \<Rightarrow>
     (case Decode (keeper s) ctx
             \<lparr>sv_Value = Value row, sv_Salt = Salt row, sv_Keeper = Keeper row, sv_Addr = Addr row\<rparr> of
        Inl err \<Rightarrow> Inl err
      | Inr plain \<Rightarrow> Inr (v\<lparr>spec_Value := plain\<rparr>))))"

subsection \<open>Notions the properties are stated with\<close>

text \<open>
  The composition \<^verbatim>\<open>toSecureValueRow(v)\<close> followed by \<^verbatim>\<open>toK8s()\<close>, as \<^verbatim>\<open>Create\<close>
  runs it.
\<close>

definition toK8s_toSecureValueRow :: "runtime \<Rightarrow> SecureValue \<Rightarrow> error + SecureValue" where
  "toK8s_toSecureValueRow rt v =
     (case toSecureValueRow rt v of Inl err \<Rightarrow> Inl err | Inr row \<Rightarrow> toK8s row)"

text \<open>
  The contract of a keeper in the spec: "for all plaintexts and salts,
  \<^verbatim>\<open>Decode(Encode(plaintext, salt), salt, ...) == plaintext\<close>", for the keeper id and the
  address the store records (both empty, \<^verbatim>\<open>Create\<close> sets neither).
\<close>

definition keeper_roundtrip :: "SecretKeeper \<Rightarrow> bool" where
  "keeper_roundtrip k =
     (\<forall>ctx ctx' plain salt enc.
        Encode k ctx \<lparr>sv_Value = plain, sv_Salt = salt, sv_Keeper = [], sv_Addr = []\<rparr> = Inr enc \<longrightarrow>
        Decode k ctx' \<lparr>sv_Value = enc, sv_Salt = salt, sv_Keeper = [], sv_Addr = []\<rparr> = Inr plain)"

text \<open>
  The spec's words for List, "decodes each" row: all the rows decoded in their order,
  or the error of the first row that does not decode.
\<close>

fun decode_rows :: "secureValueRow list \<Rightarrow> error + SecureValue list" where
  "decode_rows [] = Inr []"
| "decode_rows (row # rows) =
     (case toK8s row of
        Inl err \<Rightarrow> Inl err
      | Inr obj \<Rightarrow> map_sum id ((#) obj) (decode_rows rows))"

subsection \<open>Example data\<close>

text \<open>A keeper that puts the salt in front of the value, and one that is out of reach.\<close>

definition example_keeper :: SecretKeeper where
  "example_keeper =
     \<lparr>Encode = (\<lambda>ctx sv. Inr (sv_Salt sv @ sv_Value sv)),
      Decode = (\<lambda>ctx sv. Inr (drop (length (sv_Salt sv)) (sv_Value sv)))\<rparr>"

definition failing_keeper :: SecretKeeper where
  "failing_keeper =
     \<lparr>Encode = (\<lambda>ctx sv. Inl (Errorf ''keeper: deadline exceeded'')),
      Decode = (\<lambda>ctx sv. Inl (Errorf ''keeper: deadline exceeded''))\<rparr>"

definition example_runtime :: runtime where
  "example_runtime =
     \<lparr>NewString = ''6ba7b810-9dad-11d1-80b4-00c04fd430c8'',
      Now = 1730000000000,
      GetRandomString = (\<lambda>n. Inr (take n ''k3Jx9QmZ2pLw''))\<rparr>"

definition example_store :: secureStore where
  "example_store = \<lparr>keeper = example_keeper, db = \<lparr>table = [], online = True\<rparr>\<rparr>"

definition example_value :: SecureValue where
  "example_value =
     \<lparr>meta_Name = ''db-pass'',
      meta_Namespace = ''ns'',
      meta_UID = ''chosen-by-the-caller'',
      meta_CreationTimestamp = 0,
      meta_Labels = [(''team'', ''a'')],
      meta_Annotations = [(''owner'', ''ryan'')],
      meta_ResourceVersion = 0,
      meta_CreatedBy = [],
      meta_UpdatedBy = [],
      meta_UpdatedTimestamp = None,
      spec_Title = ''Database password'',
      spec_Value = ''s3cr3t'',
      spec_APIs = [''app-a'']\<rparr>"

text \<open>
  A stored row after the one of the query snapshot test, its labels
  \<^verbatim>\<open>{"team":"a"}\<close>, and a store that holds it.
\<close>

definition example_row :: secureValueRow where
  "example_row =
     \<lparr>UID = ''abc'', Namespace = ''ns'', Name = ''name'', Title = ''ttt'',
      Salt = ''rrr'', Value = ''rrrvvv'', Keeper = [], Addr = [],
      Created = 1234, CreatedBy = ''user:ryan'',
      Updated = 5678, UpdatedBy = ''user:cameron'',
      Annotations = ''{'' @ json_string ''x'' @ '':'' @ json_string ''XXXX'' @ ''}'',
      Labels = ''{'' @ json_string ''team'' @ '':'' @ json_string ''a'' @ ''}'',
      APIs = ''['' @ json_string ''aaa'' @ '', '' @ json_string ''bbb'' @ '', ''
               @ json_string ''ccc'' @ '']''\<rparr>"

definition stored_store :: secureStore where
  "stored_store = \<lparr>keeper = example_keeper, db = \<lparr>table = [example_row], online = True\<rparr>\<rparr>"

text \<open>
  Three rows of the namespace \<open>ns\<close> with the labels team=a, team=b, team=a, and a row
  of another namespace between them; the selector team=a.
\<close>

definition three_rows_store :: secureStore where
  "three_rows_store =
     \<lparr>keeper = example_keeper,
      db = \<lparr>table =
              [example_row\<lparr>Name := ''first''\<rparr>,
               example_row\<lparr>Name := ''second'',
                 Labels := ''{'' @ json_string ''team'' @ '':'' @ json_string ''b'' @ ''}''\<rparr>,
               example_row\<lparr>Namespace := ''other'', Name := ''elsewhere''\<rparr>,
               example_row\<lparr>Name := ''third''\<rparr>],
            online = True\<rparr>\<rparr>"

definition team_a :: Selector where
  "team_a ls = (map_of ls ''team'' = Some ''a'')"

section \<open>Facts about the model\<close>

subsection \<open>Decoding what the encoder wrote\<close>

lemma lex_escape:
  "lex (Some acc) (json_escape s @ CHR 0x22 # rest) =
     map_option ((#) (TStr (acc @ s))) (lex None rest)"
  by (induction s arbitrary: acc) auto

lemma lex_json_string:
  "lex None (json_string s @ rest) = map_option ((#) (TStr s)) (lex None rest)"
  using lex_escape [of "[]" s rest] by (simp add: json_string_def)

lemma members_roundtrip:
  "m \<noteq> [] \<Longrightarrow>
   \<exists>ts. lex None (json_members m @ ''}'') = Some ts \<and> parse_members ts = Some m \<and>
        ts \<noteq> [TSym (CHR ''}'')]"
proof (induction m rule: json_members.induct)
  case 1
  then show ?case by simp
next
  case (2 k v)
  show ?case
    by (simp add: lex_json_string is_space_def)
next
  case (3 k v kv m)
  then obtain ts where
    ts: "lex None (json_members (kv # m) @ ''}'') = Some ts" "parse_members ts = Some (kv # m)"
    by auto
  show ?case
    using ts by (simp add: lex_json_string is_space_def)
qed

lemma parse_object_Marshal:
  "parse_object (CHR ''{'' # json_members m @ ''}'') = Some m"
proof (cases "m = []")
  case True
  then show ?thesis by (simp add: parse_object_def is_space_def)
next
  case False
  from members_roundtrip [OF this] obtain ts where
    "lex None (json_members m @ ''}'') = Some ts" "parse_members ts = Some m"
    "ts \<noteq> [TSym (CHR ''}'')]"
    by blast
  then show ?thesis by (simp add: parse_object_def is_space_def)
qed

lemma elements_roundtrip:
  "ss \<noteq> [] \<Longrightarrow>
   \<exists>ts. lex None (json_elements ss @ '']'') = Some ts \<and> parse_elements ts = Some ss \<and>
        ts \<noteq> [TSym (CHR '']'')]"
proof (induction ss rule: json_elements.induct)
  case 1
  then show ?case by simp
next
  case (2 s)
  show ?case
    by (simp add: lex_json_string is_space_def)
next
  case (3 s t ss)
  then obtain ts where
    ts: "lex None (json_elements (t # ss) @ '']'') = Some ts" "parse_elements ts = Some (t # ss)"
    by auto
  show ?case
    using ts by (simp add: lex_json_string is_space_def)
qed

lemma parse_array_Marshal:
  "parse_array (CHR ''['' # json_elements ss @ '']'') = Some ss"
proof (cases "ss = []")
  case True
  then show ?thesis by (simp add: parse_array_def is_space_def)
next
  case False
  from elements_roundtrip [OF this] obtain ts where
    "lex None (json_elements ss @ '']'') = Some ts" "parse_elements ts = Some ss"
    "ts \<noteq> [TSym (CHR '']'')]"
    by blast
  then show ?thesis by (simp add: parse_array_def is_space_def)
qed

lemma update_fresh:
  "k \<notin> fst ` set m \<Longrightarrow> AList.update k v m = m @ [(k, v)]"
  by (induction m) auto

lemma fold_update_distinct:
  "distinct (map fst (acc @ ms)) \<Longrightarrow> fold (\<lambda>(k, v). AList.update k v) ms acc = acc @ ms"
proof (induction ms arbitrary: acc)
  case Nil
  then show ?case by simp
next
  case (Cons kv ms)
  obtain k v where kv: "kv = (k, v)" by (cases kv)
  from Cons.prems kv have fresh: "k \<notin> fst ` set acc" by auto
  from Cons.prems kv have "distinct (map fst ((acc @ [(k, v)]) @ ms))" by simp
  from Cons.IH [OF this] show ?case
    using kv fresh by (simp add: update_fresh)
qed

text \<open>Marshal never fails and never writes the empty text; Unmarshal reads it back.\<close>

lemma Unmarshal_map_Marshal:
  "distinct (map fst m) \<Longrightarrow> Marshal_map m = Inr js \<Longrightarrow> js \<noteq> [] \<and> Unmarshal_map js [] = Inr m"
  using fold_update_distinct [of "[]" m]
  by (auto simp: Marshal_map_def Unmarshal_map_def parse_object_Marshal)

lemma Unmarshal_strings_Marshal:
  "Marshal_strings ss = Inr js \<Longrightarrow> js \<noteq> [] \<and> Unmarshal_strings js = Inr ss"
  by (auto simp: Marshal_strings_def Unmarshal_strings_def parse_array_Marshal)

subsection \<open>The codec\<close>

lemma toSecureValueRow_eq:
  "toSecureValueRow rt v =
     Inr (zero_row
            \<lparr>UID := NewString rt,
             Namespace := meta_Namespace v,
             Name := meta_Name v,
             Title := spec_Title v,
             Value := spec_Value v,
             Created := meta_CreationTimestamp v,
             CreatedBy := meta_CreatedBy v,
             UpdatedBy := meta_UpdatedBy v,
             Updated :=
               (case meta_UpdatedTimestamp v of Some t \<Rightarrow> t | None \<Rightarrow> meta_CreationTimestamp v),
             Labels :=
               (if meta_Labels v = [] then [] else CHR ''{'' # json_members (meta_Labels v) @ ''}''),
             APIs :=
               (if spec_APIs v = [] then [] else CHR ''['' # json_elements (spec_APIs v) @ '']''),
             Annotations :=
               (if meta_Annotations v = [] then []
                else CHR ''{'' # json_members
                       (filter (\<lambda>(k, x). \<not> HasPrefix ''grafana.app/'' k) (meta_Annotations v))
                     @ ''}'')\<rparr>)"
  by (simp add: toSecureValueRow_def Let_def Marshal_map_def Marshal_strings_def
      GetCreatedBy_def GetUpdatedBy_def GetUpdatedTimestamp_def zero_row_def split: option.split)

lemma toK8s_form:
  "toK8s row =
     (case (if APIs row \<noteq> [] then Unmarshal_strings (APIs row) else Inr []) of
        Inl err \<Rightarrow> Inl err
      | Inr as \<Rightarrow>
     (case (if Annotations row \<noteq> [] then Unmarshal_map (Annotations row) [] else Inr []) of
        Inl err \<Rightarrow> Inl err
      | Inr an \<Rightarrow>
     (case (if Labels row \<noteq> [] then Unmarshal_map (Labels row) [] else Inr []) of
        Inl err \<Rightarrow> Inl err
      | Inr ls \<Rightarrow>
          Inr \<lparr>meta_Name = Name row,
               meta_Namespace = Namespace row,
               meta_UID = UID row,
               meta_CreationTimestamp = Created row,
               meta_Labels = ls,
               meta_Annotations = an,
               meta_ResourceVersion = Updated row,
               meta_CreatedBy = CreatedBy row,
               meta_UpdatedBy = (if Updated row \<noteq> Created row then UpdatedBy row else []),
               meta_UpdatedTimestamp =
                 (if Updated row \<noteq> Created row then Some (Updated row) else None),
               spec_Title = Title row,
               spec_Value = [],
               spec_APIs = as\<rparr>)))"
  by (cases "Unmarshal_strings (APIs row)"; cases "Unmarshal_map (Annotations row) []";
      cases "Unmarshal_map (Labels row) []")
    (simp_all add: toK8s_def Let_def SetCreatedBy_def SetUpdatedBy_def
      SetUpdatedTimestampMillis_def SetResourceVersionInt64_def)

lemma toK8s_value_empty: "toK8s row = Inr obj \<Longrightarrow> spec_Value obj = []"
  by (auto simp: toK8s_form split: if_splits sum.splits)

lemma toK8s_UID: "toK8s row = Inr obj \<Longrightarrow> meta_UID obj = UID row"
  by (auto simp: toK8s_form split: if_splits sum.splits)

lemma toK8s_CreationTimestamp:
  "toK8s row = Inr obj \<Longrightarrow> meta_CreationTimestamp obj = Created row"
  by (auto simp: toK8s_form split: if_splits sum.splits)

text \<open>A row whose three JSON columns were written by the encoder decodes.\<close>

lemma toK8s_decoded:
  assumes "Labels row = (if ls = [] then [] else CHR ''{'' # json_members ls @ ''}'')"
      and "APIs row = (if as = [] then [] else CHR ''['' # json_elements as @ '']'')"
      and "Annotations row = (if e then [] else CHR ''{'' # json_members an @ ''}'')"
  shows "toK8s row =
     Inr \<lparr>meta_Name = Name row,
          meta_Namespace = Namespace row,
          meta_UID = UID row,
          meta_CreationTimestamp = Created row,
          meta_Labels = fold (\<lambda>(k, v). AList.update k v) ls [],
          meta_Annotations = (if e then [] else fold (\<lambda>(k, v). AList.update k v) an []),
          meta_ResourceVersion = Updated row,
          meta_CreatedBy = CreatedBy row,
          meta_UpdatedBy = (if Updated row \<noteq> Created row then UpdatedBy row else []),
          meta_UpdatedTimestamp =
            (if Updated row \<noteq> Created row then Some (Updated row) else None),
          spec_Title = Title row,
          spec_Value = [],
          spec_APIs = as\<rparr>"
  using assms
  by (simp add: toK8s_form Unmarshal_map_def Unmarshal_strings_def parse_object_Marshal
      parse_array_Marshal)

text \<open>
  What the round trip keeps: labels, APIs, title, namespace and name come back as they
  went in, and of the annotations those whose key is not an initial segment of
  \<open>''grafana.app/''\<close>.
\<close>

lemma toK8s_toSecureValueRow_keeps:
  assumes "distinct (map fst (meta_Labels v))" "distinct (map fst (meta_Annotations v))"
  shows "\<exists>out. toK8s_toSecureValueRow rt v = Inr out \<and>
           meta_Labels out = meta_Labels v \<and>
           spec_APIs out = spec_APIs v \<and>
           spec_Title out = spec_Title v \<and>
           meta_Namespace out = meta_Namespace v \<and>
           meta_Name out = meta_Name v \<and>
           meta_Annotations out =
             filter (\<lambda>(k, x). \<not> HasPrefix ''grafana.app/'' k) (meta_Annotations v)"
proof -
  let ?an = "filter (\<lambda>(k, x). \<not> HasPrefix ''grafana.app/'' k) (meta_Annotations v)"
  obtain row where row: "toSecureValueRow rt v = Inr row"
    by (simp add: toSecureValueRow_eq)
  have ls: "fold (\<lambda>(k, v). AList.update k v) (meta_Labels v) [] = meta_Labels v"
    using fold_update_distinct [of "[]" "meta_Labels v"] assms(1) by simp
  have "distinct (map fst ?an)"
    using assms(2) by (rule distinct_map_filter)
  then have an: "fold (\<lambda>(k, v). AList.update k v) ?an [] = ?an"
    using fold_update_distinct [of "[]" ?an] by simp
  have "toK8s row =
     Inr \<lparr>meta_Name = Name row,
          meta_Namespace = Namespace row,
          meta_UID = UID row,
          meta_CreationTimestamp = Created row,
          meta_Labels = fold (\<lambda>(k, v). AList.update k v) (meta_Labels v) [],
          meta_Annotations =
            (if meta_Annotations v = [] then [] else fold (\<lambda>(k, v). AList.update k v) ?an []),
          meta_ResourceVersion = Updated row,
          meta_CreatedBy = CreatedBy row,
          meta_UpdatedBy = (if Updated row \<noteq> Created row then UpdatedBy row else []),
          meta_UpdatedTimestamp =
            (if Updated row \<noteq> Created row then Some (Updated row) else None),
          spec_Title = Title row,
          spec_Value = [],
          spec_APIs = spec_APIs v\<rparr>"
    using row by (intro toK8s_decoded) (auto simp: toSecureValueRow_eq)
  then show ?thesis
    using row ls an by (auto simp: toK8s_toSecureValueRow_def toSecureValueRow_eq)
qed


subsection \<open>The database\<close>

lemma insert_appends:
  "sqlSecureValueInsert row d = Inr d' \<Longrightarrow> table d' = table d @ [row]"
  by (auto simp: sqlSecureValueInsert_def split: if_splits)

lemma list_request:
  "matches_request (zero_row\<lparr>Namespace := ns\<rparr>) = (\<lambda>r. Namespace r = ns)"
  by (rule ext) (simp add: matches_request_def zero_row_def)

lemma get_not_found:
  assumes "online (db s)"
      and "\<forall>r \<in> set (table (db s)).
             \<not> matches_request (zero_row\<lparr>Namespace := ns, Name := name\<rparr>) r"
  shows "get s ctx ns name = Inl (Errorf ''not found'')"
  using assms by (simp add: get_def sqlSecureValueList_def filter_False)

lemma insert_then_get:
  assumes "sqlSecureValueInsert row d = Inr d'" "Name row \<noteq> []" "db s' = d'"
  shows "get s' ctx (Namespace row) (Name row) = Inr row"
proof -
  from assms(1) have on: "online d" and
    fresh: "\<forall>r \<in> set (table d). \<not> (Namespace r = Namespace row \<and> Name r = Name row)" and
    d': "d' = d\<lparr>table := table d @ [row]\<rparr>"
    by (auto simp: sqlSecureValueInsert_def split: if_splits)
  from fresh assms(2)
  have "filter (matches_request (zero_row\<lparr>Namespace := Namespace row, Name := Name row\<rparr>))
          (table d) = []"
    by (auto simp: matches_request_def filter_empty_conv)
  then show ?thesis
    using on d' assms(3) by (simp add: get_def sqlSecureValueList_def matches_request_def)
qed

subsection \<open>Create, branch by branch\<close>

lemma Create_missing_auth:
  "claims_From ctx = None \<Longrightarrow>
   Create rt s ctx v = (Inl (Errorf ''missing auth info in context''), v, s)"
  by (simp add: Create_def)

lemma Create_missing_name:
  "claims_From ctx \<noteq> None \<Longrightarrow> meta_Name v = [] \<Longrightarrow>
   Create rt s ctx v = (Inl (Errorf ''missing name''), v, s)"
  by (auto simp: Create_def)

lemma Create_missing_value:
  "claims_From ctx \<noteq> None \<Longrightarrow> meta_Name v \<noteq> [] \<Longrightarrow> spec_Value v = [] \<Longrightarrow>
   Create rt s ctx v = (Inl (Errorf ''missing value''), v, s)"
  by (auto simp: Create_def)

lemma Create_salt_fails:
  assumes "claims_From ctx \<noteq> None" "meta_Name v \<noteq> []" "spec_Value v \<noteq> []"
      and "GetRandomString rt 10 = Inl e"
  shows "Create rt s ctx v = (Inl e, v\<lparr>meta_CreationTimestamp := Now rt\<rparr>, s)"
  using assms by (auto simp: Create_def Let_def toSecureValueRow_eq)

lemma Create_encode_fails:
  assumes "claims_From ctx \<noteq> None" "meta_Name v \<noteq> []" "spec_Value v \<noteq> []"
      and "GetRandomString rt 10 = Inr salt"
      and "Encode (keeper s) ctx
             \<lparr>sv_Value = spec_Value v, sv_Salt = salt, sv_Keeper = [], sv_Addr = []\<rparr> = Inl e"
  shows "Create rt s ctx v = (Inl e, v\<lparr>meta_CreationTimestamp := Now rt\<rparr>, s)"
  using assms by (auto simp: Create_def Let_def toSecureValueRow_eq)

text \<open>
  Past the three checks, Create either succeeds or returns the error of the salt
  generator, of the keeper or of the insert statement.
\<close>

lemma Create_cases:
  assumes "claims_From ctx \<noteq> None" "meta_Name v \<noteq> []" "spec_Value v \<noteq> []"
  shows "(\<exists>obj d. Create rt s ctx v =
            (Inr obj, v\<lparr>meta_CreationTimestamp := Now rt\<rparr>, s\<lparr>db := d\<rparr>)) \<or>
         (\<exists>err. Create rt s ctx v = (Inl err, v\<lparr>meta_CreationTimestamp := Now rt\<rparr>, s) \<and>
            (GetRandomString rt 10 = Inl err \<or>
             (\<exists>sv. Encode (keeper s) ctx sv = Inl err) \<or>
             (\<exists>row. sqlSecureValueInsert row (db s) = Inl err)))"
proof -
  from assms(1) obtain a where a: "claims_From ctx = Some a" by auto
  show ?thesis
  proof (cases "GetRandomString rt 10")
    case (Inl err)
    with Create_salt_fails [OF assms this] show ?thesis by blast
  next
    case salt: (Inr salt)
    show ?thesis
    proof (cases "Encode (keeper s) ctx
             \<lparr>sv_Value = spec_Value v, sv_Salt = salt, sv_Keeper = [], sv_Addr = []\<rparr>")
      case (Inl err)
      with Create_encode_fails [OF assms salt this] show ?thesis by blast
    next
      case enc: (Inr enc)
      obtain row0 where
        row0: "toSecureValueRow rt (v\<lparr>meta_CreationTimestamp := Now rt\<rparr>) = Inr row0"
        by (simp add: toSecureValueRow_eq)
      define row where
        "row = row0\<lparr>CreatedBy := GetUID a, UpdatedBy := GetUID a, Salt := salt, Value := enc\<rparr>"
      show ?thesis
      proof (cases "sqlSecureValueInsert row (db s)")
        case (Inl err)
        then have "Create rt s ctx v = (Inl err, v\<lparr>meta_CreationTimestamp := Now rt\<rparr>, s)"
          using a assms(2,3) row0 salt enc by (simp add: Create_def Let_def row_def)
        with Inl show ?thesis by blast
      next
        case (Inr d)
        then have c: "Create rt s ctx v =
            (toK8s row, v\<lparr>meta_CreationTimestamp := Now rt\<rparr>, s\<lparr>db := d\<rparr>)"
          using a assms(2,3) row0 salt enc by (simp add: Create_def Let_def row_def)
        have "\<exists>obj. toK8s row = Inr obj"
          using row0 toK8s_decoded [of row "meta_Labels v" "spec_APIs v" "meta_Annotations v = []"
            "filter (\<lambda>(k, x). \<not> HasPrefix ''grafana.app/'' k) (meta_Annotations v)"]
          by (auto simp: toSecureValueRow_eq row_def)
        with c show ?thesis by auto
      qed
    qed
  qed
qed

text \<open>What a successful Create has done.\<close>

lemma Create_success:
  assumes "Create rt s ctx v = (Inr obj, v', s')"
  obtains a salt enc row where
    "claims_From ctx = Some a" "meta_Name v \<noteq> []" "spec_Value v \<noteq> []"
    "GetRandomString rt 10 = Inr salt"
    "Encode (keeper s) ctx
       \<lparr>sv_Value = spec_Value v, sv_Salt = salt, sv_Keeper = [], sv_Addr = []\<rparr> = Inr enc"
    "sqlSecureValueInsert row (db s) = Inr (db s')" "keeper s' = keeper s"
    "toK8s row = Inr obj"
    "UID row = NewString rt" "Namespace row = meta_Namespace v" "Name row = meta_Name v"
    "Salt row = salt" "Value row = enc" "Keeper row = []" "Addr row = []"
    "Created row = Now rt"
    "v' = v\<lparr>meta_CreationTimestamp := Now rt\<rparr>"
proof -
  from assms obtain a where a: "claims_From ctx = Some a"
    by (cases "claims_From ctx") (auto simp: Create_def)
  from assms a have name: "meta_Name v \<noteq> []" and val: "spec_Value v \<noteq> []"
    by (auto simp: Create_def split: if_splits)
  obtain row0 where
    row0: "toSecureValueRow rt (v\<lparr>meta_CreationTimestamp := Now rt\<rparr>) = Inr row0"
    by (simp add: toSecureValueRow_eq)
  from assms a name val row0 obtain salt where salt: "GetRandomString rt 10 = Inr salt"
    by (cases "GetRandomString rt 10") (auto simp: Create_def Let_def)
  from assms a name val row0 salt obtain enc where
    enc: "Encode (keeper s) ctx
            \<lparr>sv_Value = spec_Value v, sv_Salt = salt, sv_Keeper = [], sv_Addr = []\<rparr> = Inr enc"
    by (cases "Encode (keeper s) ctx
            \<lparr>sv_Value = spec_Value v, sv_Salt = salt, sv_Keeper = [], sv_Addr = []\<rparr>")
      (auto simp: Create_def Let_def)
  define row where
    "row = row0\<lparr>CreatedBy := GetUID a, UpdatedBy := GetUID a, Salt := salt, Value := enc\<rparr>"
  from assms a name val row0 salt enc obtain d where
    d: "sqlSecureValueInsert row (db s) = Inr d"
    by (cases "sqlSecureValueInsert row (db s)") (auto simp: Create_def Let_def row_def)
  from assms a name val row0 salt enc d
  have res: "toK8s row = Inr obj" "v' = v\<lparr>meta_CreationTimestamp := Now rt\<rparr>" "s' = s\<lparr>db := d\<rparr>"
    by (auto simp: Create_def Let_def row_def)
  from row0 have fields: "UID row = NewString rt" "Namespace row = meta_Namespace v"
    "Name row = meta_Name v" "Salt row = salt" "Value row = enc" "Keeper row = []"
    "Addr row = []" "Created row = Now rt"
    by (auto simp: toSecureValueRow_eq row_def zero_row_def)
  show thesis
    using that [of a salt enc row] a name val salt enc d res fields by simp
qed

lemma Create_ignores_UID:
  "Create rt s ctx (v\<lparr>meta_UID := u\<rparr>) =
     (case Create rt s ctx v of (res, v', s') \<Rightarrow> (res, v'\<lparr>meta_UID := u\<rparr>, s'))"
  by (simp add: Create_def Let_def toSecureValueRow_eq split: option.split sum.split)

subsection \<open>The loop of List\<close>

lemma List_rows_eq:
  "List_rows sel rows items =
     (case decode_rows rows of
        Inl err \<Rightarrow> Inl err
      | Inr objs \<Rightarrow> Inr (items @ filter (\<lambda>obj. sel (meta_Labels obj)) objs))"
  by (induction rows arbitrary: items) (auto split: sum.splits)

subsection \<open>The example data, evaluated\<close>

lemma example_row_decodes:
  "toK8s example_row =
     Inr \<lparr>meta_Name = ''name'', meta_Namespace = ''ns'', meta_UID = ''abc'',
          meta_CreationTimestamp = 1234,
          meta_Labels = [(''team'', ''a'')],
          meta_Annotations = [(''x'', ''XXXX'')],
          meta_ResourceVersion = 5678,
          meta_CreatedBy = ''user:ryan'',
          meta_UpdatedBy = ''user:cameron'',
          meta_UpdatedTimestamp = Some 5678,
          spec_Title = ''ttt'', spec_Value = [],
          spec_APIs = [''aaa'', ''bbb'', ''ccc'']\<rparr>"
  by (simp add: toK8s_form example_row_def Unmarshal_map_def Unmarshal_strings_def
      parse_object_def parse_array_def json_string_def is_space_def)

lemma example_keeper_roundtrip: "keeper_roundtrip example_keeper"
  by (auto simp: keeper_roundtrip_def example_keeper_def)

lemma example_Create:
  "fst (Create example_runtime example_store (Some (AuthInfo ''user:ryan'')) example_value) =
     Inr \<lparr>meta_Name = ''db-pass'', meta_Namespace = ''ns'',
          meta_UID = ''6ba7b810-9dad-11d1-80b4-00c04fd430c8'',
          meta_CreationTimestamp = 1730000000000,
          meta_Labels = [(''team'', ''a'')],
          meta_Annotations = [(''owner'', ''ryan'')],
          meta_ResourceVersion = 1730000000000,
          meta_CreatedBy = ''user:ryan'', meta_UpdatedBy = [],
          meta_UpdatedTimestamp = None, spec_Title = ''Database password'',
          spec_Value = [], spec_APIs = [''app-a'']\<rparr>"
  by (simp add: Create_def claims_From_def Let_def toSecureValueRow_eq toK8s_form
      example_runtime_def example_store_def example_value_def example_keeper_def
      sqlSecureValueInsert_def zero_row_def HasPrefix_def
      Unmarshal_map_def Unmarshal_strings_def parse_object_def parse_array_def
      json_string_def is_space_def)


section \<open>The claims\<close>

text \<open>
  C1 (codec round trip). The claim: decoding the encoded row reproduces labels, APIs,
  title, namespace, name, and the annotations whose key does not carry the reserved
  prefix \<^verbatim>\<open>grafana.app/\<close>, the encoder having stripped the keys that carry it. The code
  asks \<^verbatim>\<open>strings.HasPrefix("grafana.app/", k)\<close>, whether the reserved prefix begins with
  the key, so it strips the keys that are an initial segment of the prefix. Evaluated on
  an object with the annotations grafana=dashboards and grafana.app/createdBy=mallory:
  the first, which does not carry the prefix, is lost, and the second, which carries
  it, comes back.
\<close>

theorem C1_roundtrip_loses_unreserved_annotation:
  "map_sum id meta_Annotations
     (toK8s_toSecureValueRow example_runtime
        (example_value\<lparr>meta_Annotations :=
           [(''grafana'', ''dashboards''), (''grafana.app/createdBy'', ''mallory'')]\<rparr>)) =
   Inr [(''grafana.app/createdBy'', ''mallory'')]"
  by (simp add: toK8s_toSecureValueRow_def toSecureValueRow_eq toK8s_form example_value_def
      example_runtime_def zero_row_def HasPrefix_def Unmarshal_map_def Unmarshal_strings_def
      parse_object_def parse_array_def json_string_def is_space_def)

text \<open>
  C2 (decrypt authorization). The claim: for a row with a non-empty list of authorized
  APIs, Decrypt fails with authorization-denied for a caller that is not in the list.
  The code prints a reminder and decrypts. Evaluated on the stored row whose list is
  aaa, bbb, ccc: the caller app-x, and a caller with no identity at all, both get the
  plaintext.
\<close>

theorem C2_decrypt_serves_unlisted_caller:
  "map_sum id (\<lambda>v. (spec_APIs v, spec_Value v))
     (Decrypt stored_store (Some (AuthInfo ''app-x'')) ''ns'' ''name'') =
   Inr ([''aaa'', ''bbb'', ''ccc''], ''vvv'') \<and>
   map_sum id (\<lambda>v. (spec_APIs v, spec_Value v))
     (Decrypt stored_store None ''ns'' ''name'') =
   Inr ([''aaa'', ''bbb'', ''ccc''], ''vvv'')"
  by (simp add: Decrypt_def get_def sqlSecureValueList_def matches_request_def zero_row_def
      stored_store_def example_row_decodes example_keeper_def)
    (simp add: example_row_def)

text \<open>
  C3 (write-only value). After a successful Create of an object of name \<open>n\<close> and
  plaintext value \<open>s\<close> in namespace \<open>ns\<close>, with a keeper that decodes what it encoded:
  the object Create returns has an empty value, Read of \<open>(ns, n)\<close> returns an object
  with an empty value, and Decrypt of \<open>(ns, n)\<close> returns the value \<open>s\<close>, whoever calls;
  it is what the keeper's Decode makes of the value, the salt, the keeper id and the
  address of the stored row.
\<close>

theorem C3_write_only_value:
  assumes "keeper_roundtrip (keeper s)"
      and "Create rt s ctx v = (Inr obj, v', s')"
  shows "spec_Value obj = [] \<and>
         (\<exists>r. Read s' ctx' (meta_Namespace v) (meta_Name v) = Inr r \<and> spec_Value r = []) \<and>
         (\<exists>d. Decrypt s' ctx' (meta_Namespace v) (meta_Name v) = Inr d \<and>
              spec_Value d = spec_Value v) \<and>
         (\<exists>row. get s' ctx' (meta_Namespace v) (meta_Name v) = Inr row \<and>
              Decode (keeper s') ctx'
                \<lparr>sv_Value = Value row, sv_Salt = Salt row,
                 sv_Keeper = Keeper row, sv_Addr = Addr row\<rparr> = Inr (spec_Value v))"
proof -
  from assms(2) obtain a salt enc row where
    name: "meta_Name v \<noteq> []" and
    enc: "Encode (keeper s) ctx
            \<lparr>sv_Value = spec_Value v, sv_Salt = salt, sv_Keeper = [], sv_Addr = []\<rparr> = Inr enc" and
    ins: "sqlSecureValueInsert row (db s) = Inr (db s')" and
    keep: "keeper s' = keeper s" and
    dec: "toK8s row = Inr obj" and
    row: "Namespace row = meta_Namespace v" "Name row = meta_Name v"
         "Salt row = salt" "Value row = enc" "Keeper row = []" "Addr row = []"
    by (rule Create_success)
  have empty: "spec_Value obj = []"
    using dec by (rule toK8s_value_empty)
  have "get s' ctx' (Namespace row) (Name row) = Inr row"
    using ins name row(2) by (intro insert_then_get [where d = "db s" and d' = "db s'"]) simp_all
  then have got: "get s' ctx' (meta_Namespace v) (meta_Name v) = Inr row"
    by (simp add: row)
  have rd: "Read s' ctx' (meta_Namespace v) (meta_Name v) = Inr obj"
    using got dec by (simp add: Read_def)
  from assms(1) enc
  have "Decode (keeper s) ctx'
          \<lparr>sv_Value = enc, sv_Salt = salt, sv_Keeper = [], sv_Addr = []\<rparr> = Inr (spec_Value v)"
    unfolding keeper_roundtrip_def by blast
  then have stored: "Decode (keeper s') ctx'
      \<lparr>sv_Value = Value row, sv_Salt = Salt row, sv_Keeper = Keeper row, sv_Addr = Addr row\<rparr> =
      Inr (spec_Value v)"
    using keep by (simp add: row)
  then have "Decrypt s' ctx' (meta_Namespace v) (meta_Name v) =
      Inr (obj\<lparr>spec_Value := spec_Value v\<rparr>)"
    using got dec by (simp add: Decrypt_def)
  with empty rd got stored show ?thesis by simp
qed

theorem C3_write_only_value_witness:
  "keeper_roundtrip (keeper example_store) \<and>
   (\<exists>obj v' s'.
      Create example_runtime example_store (Some (AuthInfo ''user:ryan'')) example_value =
        (Inr obj, v', s') \<and>
      spec_Value obj = [] \<and>
      (\<exists>r. Read s' None ''ns'' ''db-pass'' = Inr r \<and> spec_Value r = []) \<and>
      (\<exists>d. Decrypt s' None ''ns'' ''db-pass'' = Inr d \<and> spec_Value d = ''s3cr3t''))"
proof -
  have law: "keeper_roundtrip (keeper example_store)"
    by (simp add: example_store_def example_keeper_roundtrip)
  obtain obj v' s' where
    c: "Create example_runtime example_store (Some (AuthInfo ''user:ryan'')) example_value =
          (Inr obj, v', s')"
    using example_Create
    by (cases "Create example_runtime example_store (Some (AuthInfo ''user:ryan'')) example_value")
      auto
  from C3_write_only_value [OF law c, where ctx' = None]
  have "spec_Value obj = [] \<and>
        (\<exists>r. Read s' None ''ns'' ''db-pass'' = Inr r \<and> spec_Value r = []) \<and>
        (\<exists>d. Decrypt s' None ''ns'' ''db-pass'' = Inr d \<and> spec_Value d = ''s3cr3t'')"
    by (simp add: example_value_def)
  with law c show ?thesis by blast
qed

text \<open>
  C4 (Create validation). Create fails with the error "missing auth info in context"
  (the class Unauthenticated) when the context has no identity; with an identity, it
  fails with "missing name" or "missing value" (the class InvalidArgument) when the name
  or the value is empty, the name being looked at first; with an identity, a name and a
  value the three checks pass and Create goes on: it returns an object, or else the
  error of the salt generator, of the keeper or of the insert statement.
\<close>

theorem C4_create_validation:
  "(claims_From ctx = None \<longrightarrow>
      fst (Create rt s ctx v) = Inl (Errorf ''missing auth info in context'')) \<and>
   (claims_From ctx \<noteq> None \<and> (meta_Name v = [] \<or> spec_Value v = []) \<longrightarrow>
      fst (Create rt s ctx v) =
        Inl (Errorf (if meta_Name v = [] then ''missing name'' else ''missing value''))) \<and>
   (claims_From ctx \<noteq> None \<and> meta_Name v \<noteq> [] \<and> spec_Value v \<noteq> [] \<longrightarrow>
      (\<exists>obj. fst (Create rt s ctx v) = Inr obj) \<or>
      (\<exists>err. fst (Create rt s ctx v) = Inl err \<and>
         (GetRandomString rt 10 = Inl err \<or>
          (\<exists>sv. Encode (keeper s) ctx sv = Inl err) \<or>
          (\<exists>row. sqlSecureValueInsert row (db s) = Inl err))))"
proof (intro conjI impI)
  assume "claims_From ctx = None"
  then show "fst (Create rt s ctx v) = Inl (Errorf ''missing auth info in context'')"
    by (simp add: Create_missing_auth)
next
  assume "claims_From ctx \<noteq> None \<and> (meta_Name v = [] \<or> spec_Value v = [])"
  then show "fst (Create rt s ctx v) =
        Inl (Errorf (if meta_Name v = [] then ''missing name'' else ''missing value''))"
    by (cases "meta_Name v = []") (simp_all add: Create_missing_name Create_missing_value)
next
  assume "claims_From ctx \<noteq> None \<and> meta_Name v \<noteq> [] \<and> spec_Value v \<noteq> []"
  then have "claims_From ctx \<noteq> None" "meta_Name v \<noteq> []" "spec_Value v \<noteq> []" by simp_all
  from Create_cases [OF this, of rt s]
  show "(\<exists>obj. fst (Create rt s ctx v) = Inr obj) \<or>
      (\<exists>err. fst (Create rt s ctx v) = Inl err \<and>
         (GetRandomString rt 10 = Inl err \<or>
          (\<exists>sv. Encode (keeper s) ctx sv = Inl err) \<or>
          (\<exists>row. sqlSecureValueInsert row (db s) = Inl err)))"
    by (elim disjE exE conjE) auto
qed

theorem C4_create_validation_witness:
  "fst (Create example_runtime example_store None example_value) =
     Inl (Errorf ''missing auth info in context'') \<and>
   fst (Create example_runtime example_store (Some (AuthInfo ''user:ryan''))
          (example_value\<lparr>meta_Name := []\<rparr>)) = Inl (Errorf ''missing name'') \<and>
   fst (Create example_runtime example_store (Some (AuthInfo ''user:ryan''))
          (example_value\<lparr>spec_Value := []\<rparr>)) = Inl (Errorf ''missing value'') \<and>
   (\<exists>obj. fst (Create example_runtime example_store (Some (AuthInfo ''user:ryan''))
                 example_value) = Inr obj)"
proof -
  have "fst (Create example_runtime example_store None example_value) =
          Inl (Errorf ''missing auth info in context'')"
    using C4_create_validation [where ctx = None and rt = example_runtime
        and s = example_store and v = example_value]
    by (simp add: claims_From_def)
  moreover
  have "fst (Create example_runtime example_store (Some (AuthInfo ''user:ryan''))
          (example_value\<lparr>meta_Name := []\<rparr>)) = Inl (Errorf ''missing name'')"
    using C4_create_validation [where ctx = "Some (AuthInfo ''user:ryan'')"
        and rt = example_runtime and s = example_store
        and v = "example_value\<lparr>meta_Name := []\<rparr>"]
    by (simp add: claims_From_def)
  moreover
  have "fst (Create example_runtime example_store (Some (AuthInfo ''user:ryan''))
          (example_value\<lparr>spec_Value := []\<rparr>)) = Inl (Errorf ''missing value'')"
    using C4_create_validation [where ctx = "Some (AuthInfo ''user:ryan'')"
        and rt = example_runtime and s = example_store
        and v = "example_value\<lparr>spec_Value := []\<rparr>"]
    by (simp add: claims_From_def example_value_def)
  moreover
  have "\<exists>obj. fst (Create example_runtime example_store (Some (AuthInfo ''user:ryan''))
                 example_value) = Inr obj"
    using C4_create_validation [where ctx = "Some (AuthInfo ''user:ryan'')"
        and rt = example_runtime and s = example_store and v = example_value]
    by (auto simp: claims_From_def example_value_def example_runtime_def example_store_def
        example_keeper_def sqlSecureValueInsert_def)
  ultimately show ?thesis by blast
qed

text \<open>
  C5 (resource version and update metadata). For every row that decodes, the resource
  version of the object is the row's Updated, its created-by is the row's CreatedBy,
  and the update timestamp and updated-by are set (to the row's Updated and UpdatedBy)
  if and only if Updated differs from Created.
\<close>

theorem C5_resource_version_and_update_metadata:
  assumes "toK8s row = Inr obj"
  shows "meta_ResourceVersion obj = Updated row \<and>
         meta_CreatedBy obj = CreatedBy row \<and>
         (meta_UpdatedTimestamp obj \<noteq> None \<longleftrightarrow> Updated row \<noteq> Created row) \<and>
         meta_UpdatedTimestamp obj =
           (if Updated row \<noteq> Created row then Some (Updated row) else None) \<and>
         meta_UpdatedBy obj = (if Updated row \<noteq> Created row then UpdatedBy row else [])"
  using assms
  by (auto simp: toK8s_form split: if_splits sum.splits)

theorem C5_resource_version_and_update_metadata_witness:
  "(\<exists>obj. toK8s example_row = Inr obj \<and>
      meta_ResourceVersion obj = 5678 \<and> meta_CreatedBy obj = ''user:ryan'' \<and>
      meta_UpdatedTimestamp obj = Some 5678 \<and> meta_UpdatedBy obj = ''user:cameron'') \<and>
   (\<exists>obj. toK8s (example_row\<lparr>Updated := 1234\<rparr>) = Inr obj \<and>
      meta_ResourceVersion obj = 1234 \<and> meta_CreatedBy obj = ''user:ryan'' \<and>
      meta_UpdatedTimestamp obj = None \<and> meta_UpdatedBy obj = [])"
proof -
  obtain obj where d: "toK8s example_row = Inr obj"
    using example_row_decodes by blast
  obtain obj' where d': "toK8s (example_row\<lparr>Updated := 1234\<rparr>) = Inr obj'"
    by (simp add: toK8s_form example_row_def Unmarshal_map_def Unmarshal_strings_def
        parse_object_def parse_array_def json_string_def is_space_def)
  from C5_resource_version_and_update_metadata [OF d]
  have "meta_ResourceVersion obj = 5678 \<and> meta_CreatedBy obj = ''user:ryan'' \<and>
      meta_UpdatedTimestamp obj = Some 5678 \<and> meta_UpdatedBy obj = ''user:cameron''"
    by (simp add: example_row_def)
  moreover
  from C5_resource_version_and_update_metadata [OF d']
  have "meta_ResourceVersion obj' = 1234 \<and> meta_CreatedBy obj' = ''user:ryan'' \<and>
      meta_UpdatedTimestamp obj' = None \<and> meta_UpdatedBy obj' = []"
    by (simp add: example_row_def)
  ultimately show ?thesis using d d' by blast
qed


text \<open>
  C6 (not found), as amended. When the store is reachable, the name is not empty and
  the table has no row of that namespace and that name, Read and Decrypt fail with the
  error "not found". Delete is not implemented: on every call, whatever the store
  holds, it panics with "unimplemented". (The claim had Delete fail with the error
  "not found" as well, and put no condition on the store or on the name.)
\<close>

theorem C6_not_found:
  "(online (db s) \<and> name \<noteq> [] \<and>
    (\<forall>r \<in> set (table (db s)). \<not> (Namespace r = ns \<and> Name r = name)) \<longrightarrow>
      Read s ctx ns name = Inl (Errorf ''not found'') \<and>
      Decrypt s ctx ns name = Inl (Errorf ''not found'')) \<and>
   Delete s ctx ns name = Inl (Panic ''unimplemented'')"
proof (rule conjI)
  show "online (db s) \<and> name \<noteq> [] \<and>
    (\<forall>r \<in> set (table (db s)). \<not> (Namespace r = ns \<and> Name r = name)) \<longrightarrow>
      Read s ctx ns name = Inl (Errorf ''not found'') \<and>
      Decrypt s ctx ns name = Inl (Errorf ''not found'')"
  proof (rule impI)
    assume h: "online (db s) \<and> name \<noteq> [] \<and>
      (\<forall>r \<in> set (table (db s)). \<not> (Namespace r = ns \<and> Name r = name))"
    then have on: "online (db s)" by simp
    from h have "\<forall>r \<in> set (table (db s)).
        \<not> matches_request (zero_row\<lparr>Namespace := ns, Name := name\<rparr>) r"
      by (simp add: matches_request_def)
    with on have "get s ctx ns name = Inl (Errorf ''not found'')"
      by (rule get_not_found)
    then show "Read s ctx ns name = Inl (Errorf ''not found'') \<and>
        Decrypt s ctx ns name = Inl (Errorf ''not found'')"
      by (simp add: Read_def Decrypt_def)
  qed
next
  show "Delete s ctx ns name = Inl (Panic ''unimplemented'')"
    by (simp add: Delete_def)
qed

theorem C6_not_found_witness:
  "online (db stored_store) \<and>
   map Namespace (table (db stored_store)) = [''ns''] \<and>
   map Name (table (db stored_store)) = [''name''] \<and>
   Read stored_store None ''ns'' ''db-pass'' = Inl (Errorf ''not found'') \<and>
   Decrypt stored_store None ''ns'' ''db-pass'' = Inl (Errorf ''not found'') \<and>
   Read stored_store None ''other'' ''name'' = Inl (Errorf ''not found'') \<and>
   Decrypt stored_store None ''other'' ''name'' = Inl (Errorf ''not found'') \<and>
   Delete stored_store None ''ns'' ''db-pass'' = Inl (Panic ''unimplemented'') \<and>
   Delete stored_store None ''ns'' ''name'' = Inl (Panic ''unimplemented'')"
proof -
  have on: "online (db stored_store)"
    by (simp add: stored_store_def)
  have rows: "map Namespace (table (db stored_store)) = [''ns'']"
    "map Name (table (db stored_store)) = [''name'']"
    by (simp_all add: stored_store_def example_row_def)
  have none: "\<forall>r \<in> set (table (db stored_store)).
      \<not> (Namespace r = ''ns'' \<and> Name r = ''db-pass'')"
    "\<forall>r \<in> set (table (db stored_store)).
      \<not> (Namespace r = ''other'' \<and> Name r = ''name'')"
    by (simp_all add: stored_store_def example_row_def)
  have a: "Read stored_store None ''ns'' ''db-pass'' = Inl (Errorf ''not found'') \<and>
      Decrypt stored_store None ''ns'' ''db-pass'' = Inl (Errorf ''not found'')"
    using C6_not_found [where s = stored_store and ctx = None and ns = "''ns''"
        and name = "''db-pass''"] on none(1)
    by simp
  have b: "Read stored_store None ''other'' ''name'' = Inl (Errorf ''not found'') \<and>
      Decrypt stored_store None ''other'' ''name'' = Inl (Errorf ''not found'')"
    using C6_not_found [where s = stored_store and ctx = None and ns = "''other''"
        and name = "''name''"] on none(2)
    by simp
  have c: "Delete stored_store None ''ns'' ''db-pass'' = Inl (Panic ''unimplemented'')"
    using C6_not_found [where s = stored_store and ctx = None and ns = "''ns''"
        and name = "''db-pass''"]
    by simp
  have d: "Delete stored_store None ''ns'' ''name'' = Inl (Panic ''unimplemented'')"
    using C6_not_found [where s = stored_store and ctx = None and ns = "''ns''"
        and name = "''name''"]
    by simp
  from on rows a b c d show ?thesis by simp
qed

text \<open>
  The claim of C6 as it stands fails in three ways, each at a pair for which the table
  has no row. On the empty store Delete of \<open>(ns, db-pass)\<close> does not return the error
  "not found", it panics. On an empty store that is not reachable Read and Decrypt of
  \<open>(ns, db-pass)\<close> return the wrapped error of the query. On the store whose one row
  is \<open>(ns, name)\<close>, Read and Decrypt of the namespace \<open>ns\<close> and the empty name find
  that row, since a request with no name selects on the namespace alone.
\<close>

theorem C6_not_found_counterexample:
  "table (db example_store) = [] \<and>
   Delete example_store (Some (AuthInfo ''user:ryan'')) ''ns'' ''db-pass'' =
     Inl (Panic ''unimplemented'') \<and>
   Delete example_store (Some (AuthInfo ''user:ryan'')) ''ns'' ''db-pass'' \<noteq>
     Inl (Errorf ''not found'') \<and>
   Read (example_store\<lparr>db := \<lparr>table = [], online = False\<rparr>\<rparr>) None ''ns'' ''db-pass'' =
     Inl (Wrapf ''list template'' (Errorf ''sql: database is closed'')) \<and>
   Decrypt (example_store\<lparr>db := \<lparr>table = [], online = False\<rparr>\<rparr>) None ''ns'' ''db-pass'' =
     Inl (Wrapf ''list template'' (Errorf ''sql: database is closed'')) \<and>
   map Namespace (table (db stored_store)) = [''ns''] \<and>
   map Name (table (db stored_store)) = [''name''] \<and>
   map_sum id meta_Name (Read stored_store None ''ns'' []) = Inr ''name'' \<and>
   map_sum id spec_Value (Decrypt stored_store None ''ns'' []) = Inr ''vvv''"
proof -
  have del: "Delete example_store (Some (AuthInfo ''user:ryan'')) ''ns'' ''db-pass'' =
      Inl (Panic ''unimplemented'')"
    by (simp add: Delete_def)
  have off: "get (example_store\<lparr>db := \<lparr>table = [], online = False\<rparr>\<rparr>) None ''ns'' ''db-pass'' =
      Inl (Wrapf ''list template'' (Errorf ''sql: database is closed''))"
    by (simp add: get_def sqlSecureValueList_def)
  have got: "get stored_store None ''ns'' [] = Inr example_row"
    by (simp add: get_def sqlSecureValueList_def matches_request_def zero_row_def
        stored_store_def) (simp add: example_row_def)
  have rd: "map_sum id meta_Name (Read stored_store None ''ns'' []) = Inr ''name''"
    by (simp add: Read_def got example_row_decodes)
  have dc: "map_sum id spec_Value (Decrypt stored_store None ''ns'' []) = Inr ''vvv''"
    by (simp add: Decrypt_def got example_row_decodes)
      (simp add: stored_store_def example_keeper_def example_row_def)
  have rows: "map Namespace (table (db stored_store)) = [''ns'']"
    "map Name (table (db stored_store)) = [''name'']"
    by (simp_all add: stored_store_def example_row_def)
  from del off rd dc rows show ?thesis
    by (simp add: example_store_def Read_def Decrypt_def)
qed

text \<open>
  C7 (List filtering). On a reachable store, with options given, List decodes the rows
  of the namespace in the order of the table and returns the objects whose decoded
  labels the selector matches, in that order; it fails with the error of the first row
  that does not decode. With no selector, or one that matches every label set, it
  returns all the objects of the namespace.
\<close>

theorem C7_list_filtering:
  assumes "online (db s)"
  shows "List s ctx ns (Some opts) =
           (case decode_rows (filter (\<lambda>r. Namespace r = ns) (table (db s))) of
              Inl err \<Rightarrow> Inl err
            | Inr objs \<Rightarrow>
                Inr (SecureValueList
                  (filter (\<lambda>obj. (case LabelSelector opts of
                                     None \<Rightarrow> Everything | Some sel \<Rightarrow> sel)
                                    (meta_Labels obj)) objs))) \<and>
         (LabelSelector opts = None \<or>
            (\<exists>sel. LabelSelector opts = Some sel \<and> (\<forall>ls. sel ls)) \<longrightarrow>
            List s ctx ns (Some opts) =
              map_sum id SecureValueList
                (decode_rows (filter (\<lambda>r. Namespace r = ns) (table (db s)))))"
  using assms
  by (auto simp: List_def Let_def sqlSecureValueList_def list_request
      List_rows_eq Everything_def split: sum.splits option.splits)

theorem C7_list_filtering_witness:
  "online (db three_rows_store) \<and>
   map_sum id (\<lambda>l. map meta_Name (Items l))
     (List three_rows_store None ''ns'' (Some \<lparr>LabelSelector = Some team_a\<rparr>)) =
     Inr [''first'', ''third''] \<and>
   map_sum id (\<lambda>l. map meta_Name (Items l))
     (List three_rows_store None ''ns'' (Some \<lparr>LabelSelector = None\<rparr>)) =
     Inr [''first'', ''second'', ''third'']"
proof -
  have on: "online (db three_rows_store)"
    by (simp add: three_rows_store_def)
  have sel: "List three_rows_store None ''ns'' (Some \<lparr>LabelSelector = Some team_a\<rparr>) =
      (case decode_rows (filter (\<lambda>r. Namespace r = ''ns'') (table (db three_rows_store))) of
         Inl err \<Rightarrow> Inl err
       | Inr objs \<Rightarrow> Inr (SecureValueList (filter (\<lambda>obj. team_a (meta_Labels obj)) objs)))"
    using C7_list_filtering [OF on, where ctx = None and ns = "''ns''"
        and opts = "\<lparr>LabelSelector = Some team_a\<rparr>", THEN conjunct1]
    by (simp cong del: sum.case_cong_weak)
  have all: "List three_rows_store None ''ns'' (Some \<lparr>LabelSelector = None\<rparr>) =
      map_sum id SecureValueList
        (decode_rows (filter (\<lambda>r. Namespace r = ''ns'') (table (db three_rows_store))))"
    using C7_list_filtering [OF on, where ctx = None and ns = "''ns''"
        and opts = "\<lparr>LabelSelector = None\<rparr>", THEN conjunct2]
    by simp
  have a: "map_sum id (\<lambda>l. map meta_Name (Items l))
     (List three_rows_store None ''ns'' (Some \<lparr>LabelSelector = Some team_a\<rparr>)) =
     Inr [''first'', ''third'']"
    unfolding sel
    by (simp add: three_rows_store_def team_a_def toK8s_form example_row_def Unmarshal_map_def
        Unmarshal_strings_def parse_object_def parse_array_def json_string_def is_space_def)
  have b: "map_sum id (\<lambda>l. map meta_Name (Items l))
     (List three_rows_store None ''ns'' (Some \<lparr>LabelSelector = None\<rparr>)) =
     Inr [''first'', ''second'', ''third'']"
    unfolding all
    by (simp add: three_rows_store_def toK8s_form example_row_def Unmarshal_map_def
        Unmarshal_strings_def parse_object_def parse_array_def json_string_def is_space_def)
  from on a b show ?thesis by blast
qed

text \<open>
  C8 (encode, then insert). Where the salt generator fails, or the keeper's Encode
  fails on the value and the salt, Create returns an error and leaves the store as it
  was: no row is inserted. For an input that passes the checks of Create the error is
  the one of the salt generator or of the keeper.
\<close>

theorem C8_no_insert_after_keeper_failure:
  assumes "GetRandomString rt 10 = Inl e \<or>
           (\<exists>salt. GetRandomString rt 10 = Inr salt \<and>
              Encode (keeper s) ctx
                \<lparr>sv_Value = spec_Value v, sv_Salt = salt, sv_Keeper = [], sv_Addr = []\<rparr> = Inl e)"
  shows "snd (snd (Create rt s ctx v)) = s \<and>
         (\<exists>err. fst (Create rt s ctx v) = Inl err) \<and>
         (claims_From ctx \<noteq> None \<and> meta_Name v \<noteq> [] \<and> spec_Value v \<noteq> [] \<longrightarrow>
            fst (Create rt s ctx v) = Inl e)"
proof (cases "claims_From ctx \<noteq> None \<and> meta_Name v \<noteq> [] \<and> spec_Value v \<noteq> []")
  case True
  then have valid: "claims_From ctx \<noteq> None" "meta_Name v \<noteq> []" "spec_Value v \<noteq> []"
    by simp_all
  from assms have "Create rt s ctx v = (Inl e, v\<lparr>meta_CreationTimestamp := Now rt\<rparr>, s)"
    using Create_salt_fails [OF valid] Create_encode_fails [OF valid] by blast
  then show ?thesis by simp
next
  case False
  then consider "claims_From ctx = None" | "claims_From ctx \<noteq> None" "meta_Name v = []"
    | "claims_From ctx \<noteq> None" "meta_Name v \<noteq> []" "spec_Value v = []"
    by blast
  then show ?thesis
    using False
    by cases (simp_all add: Create_missing_auth Create_missing_name Create_missing_value)
qed

theorem C8_no_insert_after_keeper_failure_witness:
  "(let rt = example_runtime\<lparr>GetRandomString := (\<lambda>n. Inl (Errorf ''EOF''))\<rparr>;
        r = Create rt stored_store (Some (AuthInfo ''user:ryan'')) example_value
    in GetRandomString rt 10 = Inl (Errorf ''EOF'') \<and>
       fst r = Inl (Errorf ''EOF'') \<and> snd (snd r) = stored_store) \<and>
   (let s = stored_store\<lparr>keeper := failing_keeper\<rparr>;
        r = Create example_runtime s (Some (AuthInfo ''user:ryan'')) example_value
    in GetRandomString example_runtime 10 = Inr ''k3Jx9QmZ2p'' \<and>
       Encode (keeper s) (Some (AuthInfo ''user:ryan''))
         \<lparr>sv_Value = ''s3cr3t'', sv_Salt = ''k3Jx9QmZ2p'', sv_Keeper = [], sv_Addr = []\<rparr> =
         Inl (Errorf ''keeper: deadline exceeded'') \<and>
       fst r = Inl (Errorf ''keeper: deadline exceeded'') \<and> snd (snd r) = s)"
proof -
  define rt where "rt = example_runtime\<lparr>GetRandomString := (\<lambda>n. Inl (Errorf ''EOF''))\<rparr>"
  define s where "s = stored_store\<lparr>keeper := failing_keeper\<rparr>"
  have h1: "GetRandomString rt 10 = Inl (Errorf ''EOF'')"
    by (simp add: rt_def)
  have salt: "GetRandomString example_runtime 10 = Inr ''k3Jx9QmZ2p''"
    by (simp add: example_runtime_def)
  have enc: "Encode (keeper s) (Some (AuthInfo ''user:ryan''))
         \<lparr>sv_Value = ''s3cr3t'', sv_Salt = ''k3Jx9QmZ2p'', sv_Keeper = [], sv_Addr = []\<rparr> =
         Inl (Errorf ''keeper: deadline exceeded'')"
    by (simp add: s_def failing_keeper_def)
  have a: "fst (Create rt stored_store (Some (AuthInfo ''user:ryan'')) example_value) =
             Inl (Errorf ''EOF'') \<and>
           snd (snd (Create rt stored_store (Some (AuthInfo ''user:ryan'')) example_value)) =
             stored_store"
    using C8_no_insert_after_keeper_failure [where rt = rt and e = "Errorf ''EOF''"
        and s = stored_store and ctx = "Some (AuthInfo ''user:ryan'')" and v = example_value] h1
    by (simp add: claims_From_def example_value_def)
  have b: "fst (Create example_runtime s (Some (AuthInfo ''user:ryan'')) example_value) =
             Inl (Errorf ''keeper: deadline exceeded'') \<and>
           snd (snd (Create example_runtime s (Some (AuthInfo ''user:ryan'')) example_value)) = s"
    using C8_no_insert_after_keeper_failure [where rt = example_runtime
        and e = "Errorf ''keeper: deadline exceeded''"
        and s = s and ctx = "Some (AuthInfo ''user:ryan'')" and v = example_value] salt enc
    by (simp add: claims_From_def example_value_def)
  from h1 salt enc a b show ?thesis
    by (simp add: Let_def rt_def s_def)
qed

text \<open>
  C9 (the UID is chosen by the store). After a successful Create the object returned
  and the row appended to the table carry the UID \<^verbatim>\<open>uuid.NewString()\<close> gave; the UID
  of the caller's object plays no part: with any other UID there, Create returns the
  same object and leaves the same store.
\<close>

theorem C9_uid_chosen_by_store:
  assumes "Create rt s ctx v = (Inr obj, v', s')"
  shows "meta_UID obj = NewString rt \<and>
         (\<exists>row. table (db s') = table (db s) @ [row] \<and> UID row = NewString rt) \<and>
         Create rt s ctx (v\<lparr>meta_UID := u\<rparr>) = (Inr obj, v'\<lparr>meta_UID := u\<rparr>, s')"
proof -
  from assms obtain a salt enc row where
    ins: "sqlSecureValueInsert row (db s) = Inr (db s')" and
    dec: "toK8s row = Inr obj" and
    uid: "UID row = NewString rt"
    by (rule Create_success)
  from dec uid have "meta_UID obj = NewString rt" by (simp add: toK8s_UID)
  moreover from ins uid
  have "\<exists>row. table (db s') = table (db s) @ [row] \<and> UID row = NewString rt"
    by (auto dest: insert_appends)
  moreover from assms
  have "Create rt s ctx (v\<lparr>meta_UID := u\<rparr>) = (Inr obj, v'\<lparr>meta_UID := u\<rparr>, s')"
    by (simp add: Create_ignores_UID)
  ultimately show ?thesis by simp
qed

theorem C9_uid_chosen_by_store_witness:
  "meta_UID example_value = ''chosen-by-the-caller'' \<and>
   (\<exists>obj v' s'.
      Create example_runtime example_store (Some (AuthInfo ''user:ryan'')) example_value =
        (Inr obj, v', s') \<and>
      meta_UID obj = ''6ba7b810-9dad-11d1-80b4-00c04fd430c8'' \<and>
      map UID (table (db s')) = [''6ba7b810-9dad-11d1-80b4-00c04fd430c8''] \<and>
      Create example_runtime example_store (Some (AuthInfo ''user:ryan''))
        (example_value\<lparr>meta_UID := ''another''\<rparr>) = (Inr obj, v'\<lparr>meta_UID := ''another''\<rparr>, s'))"
proof -
  obtain obj v' s' where
    c: "Create example_runtime example_store (Some (AuthInfo ''user:ryan'')) example_value =
          (Inr obj, v', s')"
    using example_Create
    by (cases "Create example_runtime example_store (Some (AuthInfo ''user:ryan'')) example_value")
      auto
  from C9_uid_chosen_by_store [OF c, where u = "''another''"]
  have "meta_UID obj = ''6ba7b810-9dad-11d1-80b4-00c04fd430c8'' \<and>
      map UID (table (db s')) = [''6ba7b810-9dad-11d1-80b4-00c04fd430c8''] \<and>
      Create example_runtime example_store (Some (AuthInfo ''user:ryan''))
        (example_value\<lparr>meta_UID := ''another''\<rparr>) = (Inr obj, v'\<lparr>meta_UID := ''another''\<rparr>, s')"
    by (auto simp: example_runtime_def example_store_def)
  with c show ?thesis by (auto simp: example_value_def)
qed

text \<open>
  C10 (Create changes its argument). Create leaves the caller's object as it was when
  one of its three checks fails, and otherwise sets its CreationTimestamp to the current
  time and changes no other field; this is done before the row is built, so the object
  returned and the row inserted carry that time as their creation time.
\<close>

theorem C10_create_stamps_argument:
  "fst (snd (Create rt s ctx v)) =
     (if claims_From ctx \<noteq> None \<and> meta_Name v \<noteq> [] \<and> spec_Value v \<noteq> []
      then v\<lparr>meta_CreationTimestamp := Now rt\<rparr> else v) \<and>
   (\<forall>obj v' s'. Create rt s ctx v = (Inr obj, v', s') \<longrightarrow>
      meta_CreationTimestamp obj = Now rt \<and>
      (\<exists>row. table (db s') = table (db s) @ [row] \<and> Created row = Now rt))"
proof (intro conjI allI impI)
  show "fst (snd (Create rt s ctx v)) =
     (if claims_From ctx \<noteq> None \<and> meta_Name v \<noteq> [] \<and> spec_Value v \<noteq> []
      then v\<lparr>meta_CreationTimestamp := Now rt\<rparr> else v)"
  proof (cases "claims_From ctx \<noteq> None \<and> meta_Name v \<noteq> [] \<and> spec_Value v \<noteq> []")
    case True
    then have valid: "claims_From ctx \<noteq> None" "meta_Name v \<noteq> []" "spec_Value v \<noteq> []"
      by simp_all
    from Create_cases [OF valid, of rt s] True show ?thesis
      by (elim disjE exE conjE) simp_all
  next
    case False
    then consider "claims_From ctx = None" | "claims_From ctx \<noteq> None" "meta_Name v = []"
      | "claims_From ctx \<noteq> None" "meta_Name v \<noteq> []" "spec_Value v = []"
      by blast
    then show ?thesis
      using False
      by cases (simp_all add: Create_missing_auth Create_missing_name Create_missing_value)
  qed
next
  fix obj v' s'
  assume c: "Create rt s ctx v = (Inr obj, v', s')"
  then obtain a salt enc row where
    ins: "sqlSecureValueInsert row (db s) = Inr (db s')" and
    dec: "toK8s row = Inr obj" and
    created: "Created row = Now rt"
    by (rule Create_success)
  from dec created show "meta_CreationTimestamp obj = Now rt"
    by (simp add: toK8s_CreationTimestamp)
  from ins created show "\<exists>row. table (db s') = table (db s) @ [row] \<and> Created row = Now rt"
    by (auto dest: insert_appends)
qed

theorem C10_create_stamps_argument_witness:
  "meta_CreationTimestamp example_value = 0 \<and>
   fst (snd (Create example_runtime example_store (Some (AuthInfo ''user:ryan'')) example_value)) =
     example_value\<lparr>meta_CreationTimestamp := 1730000000000\<rparr> \<and>
   fst (snd (Create example_runtime example_store None example_value)) = example_value \<and>
   (\<exists>obj v' s'.
      Create example_runtime example_store (Some (AuthInfo ''user:ryan'')) example_value =
        (Inr obj, v', s') \<and>
      meta_CreationTimestamp obj = 1730000000000 \<and>
      map Created (table (db s')) = [1730000000000])"
proof -
  obtain obj v' s' where
    c: "Create example_runtime example_store (Some (AuthInfo ''user:ryan'')) example_value =
          (Inr obj, v', s')"
    using example_Create
    by (cases "Create example_runtime example_store (Some (AuthInfo ''user:ryan'')) example_value")
      auto
  have t: "meta_CreationTimestamp example_value = 0"
    by (simp add: example_value_def)
  have a: "fst (snd (Create example_runtime example_store (Some (AuthInfo ''user:ryan''))
                  example_value)) = example_value\<lparr>meta_CreationTimestamp := 1730000000000\<rparr>"
    using C10_create_stamps_argument [where rt = example_runtime and s = example_store
        and ctx = "Some (AuthInfo ''user:ryan'')" and v = example_value]
    by (simp add: claims_From_def) (simp add: example_value_def example_runtime_def)
  have b: "fst (snd (Create example_runtime example_store None example_value)) = example_value"
    using C10_create_stamps_argument [where rt = example_runtime and s = example_store
        and ctx = None and v = example_value]
    by (simp add: claims_From_def)
  from C10_create_stamps_argument [where rt = example_runtime and s = example_store
      and ctx = "Some (AuthInfo ''user:ryan'')" and v = example_value] c
  have "meta_CreationTimestamp obj = 1730000000000 \<and>
      map Created (table (db s')) = [1730000000000]"
    by (auto simp: example_runtime_def example_store_def)
  with t a b c show ?thesis by auto
qed

end
